theory Spec2Isabelle
  imports Complex_Main "HOL-Library.Word" "HOL-Library.Signed_Division"
begin

unbundle bit_operations_syntax

section \<open>Window Weather Monitor: the polling loop of WeatherMonitorV2.cpp\<close>

text \<open>
  The program runs on an ESP32: \<open>unsigned long\<close>, \<open>long\<close> and \<open>int\<close> are 32 bits wide.
  \<open>millis()\<close> is the board's millisecond counter, an \<open>unsigned long\<close> that wraps to 0
  after \<open>2 ^ 32\<close> ms. Every clock value the code reads is an argument of the model.
\<close>

type_synonym ulong = "32 word"

subsection \<open>check_interval (lines 188-195)\<close>

text \<open>
  \<^verbatim>\<open>
  bool check_interval(unsigned long* previousMillis, long interval) {
    unsigned long currentMillis = millis();
    if (currentMillis - *previousMillis >= interval) {
      *previousMillis = currentMillis;
      return true;
    }
    return false;
  }
  \<close>
  The pointer argument is passed as its value and returned updated. \<open>interval\<close> is a
  \<open>long\<close>, held here as its 32 bits (\<open>sint\<close> reads its C value); the comparison is
  between an \<open>unsigned long\<close> and a \<open>long\<close>, so C converts the \<open>long\<close> to
  \<open>unsigned long\<close>: the same bits read unsigned, which is the order of \<open>32 word\<close>.
\<close>

definition check_interval :: "ulong \<Rightarrow> ulong \<Rightarrow> 32 word \<Rightarrow> bool \<times> ulong" where
  "check_interval currentMillis previousMillis interval =
     (if currentMillis - previousMillis \<ge> interval
      then (True, currentMillis)
      else (False, previousMillis))"

subsection \<open>Floating-point values\<close>

text \<open>
  The code tests a \<open>float\<close> only with \<open>isnan\<close> and \<open>==\<close>. A \<open>float\<close> is therefore
  either the not-a-number value or a number; \<open>==\<close> is false as soon as one side is
  not-a-number. Infinities and the sign of zero are not told apart from numbers.
\<close>

datatype cfloat = NaN | Num real

fun isnan :: "cfloat \<Rightarrow> bool" where
  "isnan NaN = True"
| "isnan (Num r) = False"

fun float_eq :: "cfloat \<Rightarrow> cfloat \<Rightarrow> bool" where
  "float_eq (Num a) (Num b) = (a = b)"
| "float_eq a b = False"

subsection \<open>Constants and globals (lines 101-181)\<close>

definition ROWS :: nat where
  "ROWS = 4"

definition COLS :: nat where
  "COLS = 4"

text \<open>\<open>char keymap[ROWS][COLS]\<close>, lines 106-111.\<close>

definition keymap :: "char list list" where
  "keymap =
     [[CHR ''1'', CHR ''2'', CHR ''3'', CHR ''A''],
      [CHR ''4'', CHR ''5'', CHR ''6'', CHR ''B''],
      [CHR ''7'', CHR ''8'', CHR ''9'', CHR ''C''],
      [CHR ''*'', CHR ''0'', CHR ''#'', CHR ''D'']]"

definition rainAnalog :: nat where
  "rainAnalog = 36"

definition rainDigital :: nat where
  "rainDigital = 17"

text \<open>\<open>#define EVENT_WAIT_TIME 60000\<close>: an \<open>int\<close> constant.\<close>

definition EVENT_WAIT_TIME :: int where
  "EVENT_WAIT_TIME = 60000"

text \<open>\<open>const long LM393_sample_interval = 10 * 1000\<close>, held as its 32 bits.\<close>

definition LM393_sample_interval :: "32 word" where
  "LM393_sample_interval = 10 * 1000"

text \<open>The global variables of lines 169-180.\<close>

record state =
  globalToggleStates :: "string \<rightharpoonup> bool"
  deviceIsOn :: bool
  temperature :: cfloat
  humidity :: cfloat
  lastTemperature :: cfloat
  lastHumidity :: cfloat
  lastEvent :: ulong
  LM393_previous_millis :: ulong

text \<open>
  Their values when the program starts: globals without an initialiser are zero,
  \<open>lastEvent = (-EVENT_WAIT_TIME)\<close> converts \<open>-60000\<close> to \<open>unsigned long\<close>. No line of the
  file assigns \<open>deviceIsOn\<close>.
\<close>

definition initial_state :: state where
  "initial_state =
     \<lparr> globalToggleStates = Map.empty,
       deviceIsOn = False,
       temperature = Num 0,
       humidity = Num 0,
       lastTemperature = Num 0,
       lastHumidity = Num 0,
       lastEvent = word_of_int (- EVENT_WAIT_TIME),
       LM393_previous_millis = 0 \<rparr>"

subsection \<open>What a handler does to the outside\<close>

text \<open>
  The lines written to \<open>Serial\<close>, one constructor for each group of print statements, with
  the values printed; the text and number formats are not modelled.
\<close>

datatype serial_line =
    ToggleSet string string bool
  | KeyEventLine bool "8 word" "8 word" char
  | DhtReadingFailed
  | TemperatureHumidity cfloat cfloat
  | SendEventFailed
  | RainValues int int
  | Measurements cfloat cfloat

datatype handler = HandleKeypad | HandleRainSensor | HandleTemperaturesensor | HandleDisplay

text \<open>
  The calls a function makes to the outside, in the order it makes them: the sensor, keypad
  and pin reads, the three Sinric Pro events, the \<open>Serial\<close> lines, and \<open>loop\<close>'s calls of its
  handlers. Every function returns the list of its calls beside the new state.
\<close>

datatype effect =
    Call handler
  | Serial serial_line
  | KeypadGetEvent
  | DhtGetTemperature
  | DhtGetHumidity
  | AnalogRead nat
  | DigitalRead nat
  | SendTemperatureEvent cfloat cfloat
  | SendPushNotification string
  | SendToggleStateEvent string bool


fun is_send :: "effect \<Rightarrow> bool" where
  "is_send (SendTemperatureEvent t h) = True"
| "is_send e = False"



subsection \<open>get_key (lines 198-223)\<close>

text \<open>
  \<open>keymap[i][j]\<close> with \<open>uint8_t\<close> indices. The table is 16 consecutive bytes, line after line,
  and the code tests neither index: the read loads the byte at offset \<open>i * COLS + j\<close> from the
  start of the table. Below 16 that is an entry of the table, also when \<open>j\<close> runs past the
  end of a line; from 16 on it is a byte of whatever the linker has placed behind the table
  (C leaves such a read undefined). Those bytes are the argument \<open>beyond\<close>, counted from the
  end of the table.
\<close>

definition keymap_read :: "(nat \<Rightarrow> char) \<Rightarrow> 8 word \<Rightarrow> 8 word \<Rightarrow> char" where
  "keymap_read beyond i j =
     (let offset = unat i * COLS + unat j
      in if offset < ROWS * COLS then concat keymap ! offset
         else beyond (offset - ROWS * COLS))"

text \<open>
  \<^verbatim>\<open>
  char get_key() {
    if (keypad.available()) {
      int k = keypad.getEvent();
      bool pressed = k & 0x80;
      k &= 0x7F;
      k--;
      uint8_t row = k / 10;
      uint8_t col = k % 10;
      ... prints PRESS or RELEASE, row, col, keymap[col][row] ...
      return keymap[col][row];
    }
    return 0;
  }
  \<close>
  The keypad driver is the list of its pending events, oldest first; an event is the byte
  the driver's \<open>getEvent\<close> returns. \<open>k\<close> is an \<open>int\<close>; C's \<open>/\<close> and \<open>%\<close> truncate towards
  zero (\<open>sdiv\<close>, \<open>smod\<close>), and the conversion to \<open>uint8_t\<close> keeps the low 8 bits. The function
  returns the byte read, the events still pending and its calls.
\<close>

definition get_key ::
    "(nat \<Rightarrow> char) \<Rightarrow> 8 word list \<Rightarrow> char \<times> 8 word list \<times> effect list" where
  "get_key beyond events =
     (case events of
        [] \<Rightarrow> (CHR 0x00, [], [])
      | e # pending \<Rightarrow>
          (let k = uint e;
               pressed = (k AND 0x80 \<noteq> 0);
               k = k AND 0x7F;
               k = k - 1;
               row = (word_of_int (k sdiv 10) :: 8 word);
               col = (word_of_int (k smod 10) :: 8 word)
           in (keymap_read beyond col row, pending,
               [KeypadGetEvent,
                Serial (KeyEventLine pressed row col (keymap_read beyond col row))])))"

subsection \<open>onToggleState (lines 270-274)\<close>

text \<open>
  \<^verbatim>\<open>
  bool onToggleState(const String& deviceId, const String& instance, bool &state) {
    Serial.printf(...);
    globalToggleStates[instance] = state;
    return true;
  }
  \<close>
\<close>

definition onToggleState :: "string \<Rightarrow> string \<Rightarrow> bool \<Rightarrow> state \<Rightarrow> bool \<times> state \<times> effect list" where
  "onToggleState deviceId instance st s =
     (True,
      s\<lparr>globalToggleStates := (globalToggleStates s)(instance \<mapsto> st)\<rparr>,
      [Serial (ToggleSet deviceId instance st)])"

subsection \<open>handleTemperaturesensor (lines 283-314)\<close>

text \<open>
  \<^verbatim>\<open>
  void handleTemperaturesensor() {
    if (deviceIsOn == false) return;
    unsigned long actualMillis = millis();
    if (actualMillis - lastEvent < EVENT_WAIT_TIME) return;
    temperature = dht.getTemperature();
    humidity = dht.getHumidity();
    if (isnan(temperature) || isnan(humidity)) {
      Serial.printf("DHT reading failed!\r\n");
      return;
    }
    if (temperature == lastTemperature && humidity == lastHumidity)
    {
      //Serial.println("Same temp and humidity as last checkin");
    }
    bool success = weatherMonitor.sendTemperatureEvent(temperature, humidity);
    if (success) {
      Serial.printf("Temperature: ...", temperature, humidity);
    } else {
      Serial.printf("Something went wrong...could not send Event to server!\r\n");
      return;
    }
    lastTemperature = temperature;
    lastHumidity = humidity;
    lastEvent = actualMillis;
  }
  \<close>
  The arguments are what the outside answers when asked: the clock, the two values of the
  DHT driver and the result of \<open>sendTemperatureEvent\<close>. \<open>EVENT_WAIT_TIME\<close> is an \<open>int\<close>
  compared with an \<open>unsigned long\<close>, so it is converted to \<open>unsigned long\<close>.
\<close>

definition handleTemperaturesensor ::
    "ulong \<Rightarrow> cfloat \<Rightarrow> cfloat \<Rightarrow> bool \<Rightarrow> state \<Rightarrow> state \<times> effect list" where
  "handleTemperaturesensor actualMillis dhtTemperature dhtHumidity success s =
     (if deviceIsOn s = False then (s, [])
      else if actualMillis - lastEvent s < word_of_int EVENT_WAIT_TIME then (s, [])
      else
        (let s1 = s\<lparr>temperature := dhtTemperature, humidity := dhtHumidity\<rparr>;
             reads = [DhtGetTemperature, DhtGetHumidity]
         in if isnan (temperature s1) \<or> isnan (humidity s1)
            then (s1, reads @ [Serial DhtReadingFailed])
            else
              (let same = (if float_eq (temperature s1) (lastTemperature s1)
                              \<and> float_eq (humidity s1) (lastHumidity s1)
                           then [] else []);
                   sent = [SendTemperatureEvent (temperature s1) (humidity s1)]
               in if success
                  then (s1\<lparr>lastTemperature := temperature s1,
                            lastHumidity := humidity s1,
                            lastEvent := actualMillis\<rparr>,
                        reads @ same @ sent
                          @ [Serial (TemperatureHumidity (temperature s1) (humidity s1))])
                  else (s1, reads @ same @ sent @ [Serial SendEventFailed]))))"

subsection \<open>handleRainSensor (lines 325-338)\<close>

text \<open>
  \<^verbatim>\<open>
  void handleRainSensor(){
    if (check_interval(&LM393_previous_millis, LM393_sample_interval)) {
      int rainAnalogVal = analogRead(rainAnalog);
      int rainDigitalVal = digitalRead(rainDigital);
      ... prints both values ...
    }
  }
  \<close>
\<close>

definition handleRainSensor :: "ulong \<Rightarrow> int \<Rightarrow> int \<Rightarrow> state \<Rightarrow> state \<times> effect list" where
  "handleRainSensor currentMillis rainAnalogVal rainDigitalVal s =
     (let (fired, previousMillis) =
            check_interval currentMillis (LM393_previous_millis s) LM393_sample_interval;
          s1 = s\<lparr>LM393_previous_millis := previousMillis\<rparr>
      in if fired
         then (s1, [AnalogRead rainAnalog, DigitalRead rainDigital,
                    Serial (RainValues rainAnalogVal rainDigitalVal)])
         else (s1, []))"

subsection \<open>handleKeypad, handleDisplay and the event functions (lines 351-420)\<close>




text \<open>
  \<open>updateTemperature\<close> and \<open>updateToggleState\<close> (lines 408-420) forward their arguments in the
  same way; nothing in the file calls them.
\<close>

definition updateTemperature :: "cfloat \<Rightarrow> cfloat \<Rightarrow> state \<Rightarrow> state \<times> effect list" where
  "updateTemperature t h s = (s, [SendTemperatureEvent t h])"

definition updateToggleState :: "string \<Rightarrow> bool \<Rightarrow> state \<Rightarrow> state \<times> effect list" where
  "updateToggleState instance st s = (s, [SendToggleStateEvent instance st])"

subsection \<open>loop (lines 527-543)\<close>

text \<open>
  \<open>SinricPro.handle()\<close> belongs to the Sinric Pro SDK. The only code of this file it can run
  is the callback registered in \<open>setupSinricPro\<close>, \<open>onToggleState\<close>; the toggle requests it
  delivers during one call are an argument, each a device id, an instance and a state.
\<close>

fun SinricPro_handle :: "(string \<times> string \<times> bool) list \<Rightarrow> state \<Rightarrow> state \<times> effect list" where
  "SinricPro_handle [] s = (s, [])"
| "SinricPro_handle ((deviceId, instance, st) # requests) s =
     (let (ok, s1, e1) = onToggleState deviceId instance st s;
          (s2, e2) = SinricPro_handle requests s1
      in (s2, e1 @ e2))"

text \<open>What the outside answers during one run of \<open>loop\<close>.\<close>

record tick =
  toggle_requests :: "(string \<times> string \<times> bool) list"
  millis_rain :: ulong
  rainAnalogVal :: int
  rainDigitalVal :: int
  millis_dht :: ulong
  dhtTemperature :: cfloat
  dhtHumidity :: cfloat
  sendOk :: bool


subsection \<open>The start-up and the run of the program (lines 482-495)\<close>




subsection \<open>Concrete states and ticks\<close>

text \<open>
  A state in which the sensor is switched on and the last accepted reading is 20 degrees and
  50 percent, taken at clock value 0. \<open>deviceIsOn\<close> is a global with external linkage that
  this file reads and never assigns: the handlers are defined on such a state, and the
  program as it stands starts and stays in states where the flag is false.
\<close>

definition sensor_on_state :: state where
  "sensor_on_state =
     \<lparr> globalToggleStates = Map.empty,
       deviceIsOn = True,
       temperature = Num 20,
       humidity = Num 50,
       lastTemperature = Num 20,
       lastHumidity = Num 50,
       lastEvent = 0,
       LM393_previous_millis = 0 \<rparr>"




subsection \<open>The decision order of the specification\<close>







section \<open>Properties\<close>

lemma uint_diff_mod: "uint (a - b :: 32 word) = (uint a - uint b) mod 2 ^ 32"
  by (simp add: uint_word_ariths)

lemma take_bit_31_uint:
  assumes nb: "\<not> bit (w :: 32 word) 31"
  shows "take_bit 31 (uint w) = uint w"
proof (rule bit_eqI)
  fix n
  show "bit (take_bit 31 (uint w)) n = bit (uint w) n"
  proof (cases "n < 31")
    case True
    then show ?thesis by (simp add: bit_take_bit_iff)
  next
    case False
    have "\<not> bit w n"
    proof
      assume b: "bit w n"
      then have "n < 32" using bit_imp_le_length [of w n] by simp
      with False have "n = 31" by simp
      with b nb show False by simp
    qed
    then show ?thesis using False by (simp add: bit_take_bit_iff bit_uint_iff)
  qed
qed

lemma sint_nonneg_uint:
  assumes a: "0 \<le> sint (w :: 32 word)"
  shows "sint w = uint w"
proof -
  have nb: "\<not> bit w 31" using a bit_last_iff [of w] by simp
  have "sint w = signed_take_bit 31 (uint w)" by (simp add: sint_uint)
  also have "\<dots> = take_bit 31 (uint w)"
    using nb by (simp add: signed_take_bit_eq_if_positive bit_uint_iff)
  also have "\<dots> = uint w" using nb by (rule take_bit_31_uint)
  finally show ?thesis .
qed

text \<open>
  Claim C2. For every timer value and every clock value, \<open>check_interval\<close> returns true and
  stores the clock value in the timer exactly when the difference of the clock and the timer,
  taken modulo \<open>2 ^ 32\<close>, is at least the period; otherwise it returns false and the timer
  keeps its value. The difference is the wrapped one, so a clock that has passed its maximum
  and restarted at 0 is still measured from the timer's last value. The period is compared as
  C converts the \<open>long\<close> to \<open>unsigned long\<close>; for a period that is not negative this is the
  period itself.
\<close>

theorem check_interval_wraparound:
  "check_interval now lastFired interval =
     (if uint interval \<le> (uint now - uint lastFired) mod 2 ^ 32
      then (True, now) else (False, lastFired))
   \<and> (0 \<le> sint interval \<longrightarrow> uint interval = sint interval)"
  by (simp add: check_interval_def word_le_def uint_diff_mod sint_nonneg_uint)

theorem check_interval_wraparound_witness:
  "0 \<le> sint LM393_sample_interval
   \<and> sint LM393_sample_interval = 10000
   \<and> check_interval 5 0xFFFFFFF0 LM393_sample_interval = (False, 0xFFFFFFF0)
   \<and> check_interval 9984 0xFFFFFFF0 LM393_sample_interval = (True, 9984)
   \<and> (uint (9984 :: 32 word) - uint (0xFFFFFFF0 :: 32 word)) mod 2 ^ 32 = 10000
   \<and> (uint (5 :: 32 word) - uint (0xFFFFFFF0 :: 32 word)) mod 2 ^ 32 = 21"
proof -
  have h: "0 \<le> sint LM393_sample_interval"
    by (simp add: LM393_sample_interval_def)
  have u: "uint LM393_sample_interval = 10000"
    by (simp add: LM393_sample_interval_def)
  show ?thesis
    using h u check_interval_wraparound [of 5 "0xFFFFFFF0" LM393_sample_interval]
      check_interval_wraparound [of 9984 "0xFFFFFFF0" LM393_sample_interval]
    by simp
qed

subsection \<open>handleTemperaturesensor\<close>

text \<open>
  Claim C3. On a tick of \<open>handleTemperaturesensor\<close> on which the DHT driver returns
  not-a-number for the temperature or the humidity, or \<open>sendTemperatureEvent\<close> fails, the
  baseline \<open>lastTemperature\<close>, \<open>lastHumidity\<close> and \<open>lastEvent\<close> is what it was before the tick.
  The next tick, whatever the outside answers then, makes the calls it would have made had the
  failed tick not happened: it attempts again against the old baseline.
\<close>

theorem handleTemperaturesensor_error_keeps_baseline:
  assumes "isnan t \<or> isnan h \<or> \<not> ok"
  shows "lastTemperature (fst (handleTemperaturesensor now t h ok s)) = lastTemperature s
       \<and> lastHumidity (fst (handleTemperaturesensor now t h ok s)) = lastHumidity s
       \<and> lastEvent (fst (handleTemperaturesensor now t h ok s)) = lastEvent s
       \<and> snd (handleTemperaturesensor now' t' h' ok' (fst (handleTemperaturesensor now t h ok s)))
           = snd (handleTemperaturesensor now' t' h' ok' s)"
  using assms by (auto simp add: handleTemperaturesensor_def Let_def)

theorem handleTemperaturesensor_error_keeps_baseline_witness:
  "(isnan NaN \<or> isnan (Num 55) \<or> \<not> True)
   \<and> handleTemperaturesensor 60000 NaN (Num 55) True sensor_on_state
       = (sensor_on_state\<lparr>temperature := NaN, humidity := Num 55\<rparr>,
          [DhtGetTemperature, DhtGetHumidity, Serial DhtReadingFailed])
   \<and> (isnan (Num 21) \<or> isnan (Num 55) \<or> \<not> False)
   \<and> handleTemperaturesensor 60000 (Num 21) (Num 55) False sensor_on_state
       = (sensor_on_state\<lparr>temperature := Num 21, humidity := Num 55\<rparr>,
          [DhtGetTemperature, DhtGetHumidity, SendTemperatureEvent (Num 21) (Num 55),
           Serial SendEventFailed])
   \<and> lastTemperature (fst (handleTemperaturesensor 60000 NaN (Num 55) True sensor_on_state))
       = Num 20
   \<and> lastHumidity (fst (handleTemperaturesensor 60000 NaN (Num 55) True sensor_on_state))
       = Num 50
   \<and> lastEvent (fst (handleTemperaturesensor 60000 NaN (Num 55) True sensor_on_state)) = 0
   \<and> lastTemperature (fst (handleTemperaturesensor 60000 (Num 21) (Num 55) False sensor_on_state))
       = Num 20
   \<and> lastHumidity (fst (handleTemperaturesensor 60000 (Num 21) (Num 55) False sensor_on_state))
       = Num 50
   \<and> lastEvent (fst (handleTemperaturesensor 60000 (Num 21) (Num 55) False sensor_on_state)) = 0
   \<and> snd (handleTemperaturesensor 60001 (Num 21) (Num 55) True
            (fst (handleTemperaturesensor 60000 NaN (Num 55) True sensor_on_state)))
       = [DhtGetTemperature, DhtGetHumidity, SendTemperatureEvent (Num 21) (Num 55),
          Serial (TemperatureHumidity (Num 21) (Num 55))]"
proof -
  have h: "isnan NaN \<or> isnan (Num 55) \<or> \<not> True" by simp
  have g: "isnan (Num 21) \<or> isnan (Num 55) \<or> \<not> False" by simp
  have e: "handleTemperaturesensor 60000 NaN (Num 55) True sensor_on_state
       = (sensor_on_state\<lparr>temperature := NaN, humidity := Num 55\<rparr>,
          [DhtGetTemperature, DhtGetHumidity, Serial DhtReadingFailed])"
    by (simp add: handleTemperaturesensor_def sensor_on_state_def EVENT_WAIT_TIME_def)
  have f: "handleTemperaturesensor 60000 (Num 21) (Num 55) False sensor_on_state
       = (sensor_on_state\<lparr>temperature := Num 21, humidity := Num 55\<rparr>,
          [DhtGetTemperature, DhtGetHumidity, SendTemperatureEvent (Num 21) (Num 55),
           Serial SendEventFailed])"
    by (simp add: handleTemperaturesensor_def sensor_on_state_def EVENT_WAIT_TIME_def)
  have n: "snd (handleTemperaturesensor 60001 (Num 21) (Num 55) True sensor_on_state)
       = [DhtGetTemperature, DhtGetHumidity, SendTemperatureEvent (Num 21) (Num 55),
          Serial (TemperatureHumidity (Num 21) (Num 55))]"
    by (simp add: handleTemperaturesensor_def sensor_on_state_def EVENT_WAIT_TIME_def)
  have b: "lastTemperature sensor_on_state = Num 20 \<and> lastHumidity sensor_on_state = Num 50
       \<and> lastEvent sensor_on_state = 0"
    by (simp add: sensor_on_state_def)
  show ?thesis
    using h g e f n b
      handleTemperaturesensor_error_keeps_baseline
        [OF h, where now = 60000 and s = sensor_on_state and now' = 60001 and t' = "Num 21"
           and h' = "Num 55" and ok' = True]
      handleTemperaturesensor_error_keeps_baseline
        [OF g, where now = 60000 and s = sensor_on_state and now' = 60001 and t' = "Num 21"
           and h' = "Num 55" and ok' = True]
    by (simp only: simp_thms)
qed

text \<open>
  Claim C4. When the sensor is switched on, the interval has passed and the DHT driver returns
  two numbers, \<open>handleTemperaturesensor\<close> calls \<open>sendTemperatureEvent\<close> once, with the values
  read. Whether they equal the last accepted reading plays no part: with the baseline set to
  the sample itself the function makes the same calls, the same \<open>Serial\<close> lines included.
\<close>

theorem handleTemperaturesensor_forwards_equal_sample:
  assumes "deviceIsOn s" and "\<not> now - lastEvent s < word_of_int EVENT_WAIT_TIME"
    and "\<not> isnan t" and "\<not> isnan h"
  shows "filter is_send (snd (handleTemperaturesensor now t h ok s)) = [SendTemperatureEvent t h]
       \<and> snd (handleTemperaturesensor now t h ok (s\<lparr>lastTemperature := t, lastHumidity := h\<rparr>))
           = snd (handleTemperaturesensor now t h ok s)"
  using assms by (auto simp add: handleTemperaturesensor_def Let_def)

theorem handleTemperaturesensor_forwards_equal_sample_witness:
  "deviceIsOn sensor_on_state
   \<and> \<not> 60000 - lastEvent sensor_on_state < word_of_int EVENT_WAIT_TIME
   \<and> \<not> isnan (Num 20) \<and> \<not> isnan (Num 50)
   \<and> lastTemperature sensor_on_state = Num 20 \<and> lastHumidity sensor_on_state = Num 50
   \<and> filter is_send (snd (handleTemperaturesensor 60000 (Num 20) (Num 50) True sensor_on_state))
       = [SendTemperatureEvent (Num 20) (Num 50)]"
proof -
  have a: "deviceIsOn sensor_on_state" by (simp add: sensor_on_state_def)
  have b: "\<not> 60000 - lastEvent sensor_on_state < word_of_int EVENT_WAIT_TIME"
    by (simp add: sensor_on_state_def EVENT_WAIT_TIME_def)
  have c: "\<not> isnan (Num 20)" by simp
  have d: "\<not> isnan (Num 50)" by simp
  show ?thesis
    using a b handleTemperaturesensor_forwards_equal_sample [OF a b c d, of True]
    by (simp add: sensor_on_state_def)
qed

subsection \<open>handleRainSensor\<close>

text \<open>
  Claim C8. \<open>handleRainSensor\<close> reads the two rain pins exactly when 10000 ms or more have
  passed on its own timer \<open>LM393_previous_millis\<close>; it then prints the two values as read,
  whatever they are. The state it returns is the state it was given with that timer set to
  the clock value when it fired: \<open>lastTemperature\<close>, \<open>lastHumidity\<close>, \<open>lastEvent\<close> and the
  toggle map keep their values. The temperature timer \<open>lastEvent\<close> plays no part in what the
  function does.
\<close>

theorem handleRainSensor_frame:
  "snd (handleRainSensor now a d s)
     = (if 10000 \<le> unat (now - LM393_previous_millis s)
        then [AnalogRead 36, DigitalRead 17, Serial (RainValues a d)] else [])
   \<and> fst (handleRainSensor now a d s)
     = s\<lparr>LM393_previous_millis :=
           (if 10000 \<le> unat (now - LM393_previous_millis s) then now
            else LM393_previous_millis s)\<rparr>
   \<and> lastTemperature (fst (handleRainSensor now a d s)) = lastTemperature s
   \<and> lastHumidity (fst (handleRainSensor now a d s)) = lastHumidity s
   \<and> lastEvent (fst (handleRainSensor now a d s)) = lastEvent s
   \<and> globalToggleStates (fst (handleRainSensor now a d s)) = globalToggleStates s
   \<and> handleRainSensor now a d (s\<lparr>lastEvent := x\<rparr>)
     = (fst (handleRainSensor now a d s)\<lparr>lastEvent := x\<rparr>, snd (handleRainSensor now a d s))"
  by (simp add: handleRainSensor_def check_interval_def LM393_sample_interval_def
      rainAnalog_def rainDigital_def word_le_nat_alt)

subsection \<open>get_key\<close>

lemma pressed_bit: "(uint (e :: 8 word) AND 0x80 \<noteq> 0) = bit e 7"
proof -
  have "(uint e AND 2 ^ 7 = 0) = (\<not> bit (uint e) 7)"
    by (rule and_exp_eq_0_iff_not_bit)
  then show ?thesis by (simp add: bit_uint_iff)
qed

lemma strip_bit: "uint (e :: 8 word) AND 0x7F = uint (e AND 0x7F)"
  by (simp add: uint_and)

lemma get_key_any_event:
  "get_key beyond (e # pending) =
     (let index = uint (e AND 0x7F) - 1;
          row = word_of_int (index sdiv 10);
          col = word_of_int (index smod 10)
      in (keymap_read beyond col row, pending,
          [KeypadGetEvent,
           Serial (KeyEventLine (bit e 7) row col (keymap_read beyond col row))]))"
  by (simp add: get_key_def Let_def pressed_bit strip_bit del: bit_numeral_word_iff)

lemma get_key_keys:
  assumes "r < 4" and "c < 4"
  shows "get_key beyond ((word_of_nat (r * 10 + c + 1) + (if p then 0x80 else 0)) # pending)
         = (keymap ! c ! r, pending,
            [KeypadGetEvent,
             Serial (KeyEventLine p (word_of_nat r) (word_of_nat c) (keymap ! c ! r))])"
proof -
  have r: "r = 0 \<or> r = 1 \<or> r = 2 \<or> r = 3" using assms by arith
  have c: "c = 0 \<or> c = 1 \<or> c = 2 \<or> c = 3" using assms by arith
  show ?thesis using r c
    by (cases p) (auto simp add: get_key_def keymap_read_def keymap_def ROWS_def COLS_def
        signed_divide_int_def signed_modulo_int_def)
qed

text \<open>
  Claim C6. For every pending raw event \<open>e\<close>, \<open>get_key\<close> takes the event off the queue, reads
  the press flag from bit 7, strips that bit, subtracts 1, takes \<open>row = index / 10\<close> and
  \<open>col = index % 10\<close> (C's truncating operators, narrowed to a byte) and returns the lookup
  \<open>keymap[col][row]\<close>, printing the edge, the row, the column and the symbol. For the sixteen
  keys of the 4 by 4 matrix, whose event is \<open>row * 10 + col + 1\<close> with \<open>0x80\<close> added on a
  press, the result is the table entry in line \<open>col\<close> at position \<open>row\<close>. The press of the
  key in row 2, column 1 is the event 150: it gives the symbol 6 with a press edge, the entry
  \<open>keymap[1][2]\<close>; the entry \<open>keymap[2][1]\<close> of the table as laid out is 8.
\<close>

theorem get_key_decodes:
  "get_key beyond (e # pending) =
     (let index = uint (e AND 0x7F) - 1;
          row = word_of_int (index sdiv 10);
          col = word_of_int (index smod 10)
      in (keymap_read beyond col row, pending,
          [KeypadGetEvent,
           Serial (KeyEventLine (bit e 7) row col (keymap_read beyond col row))]))
   \<and> (r < 4 \<and> c < 4 \<longrightarrow>
        get_key beyond ((word_of_nat (r * 10 + c + 1) + (if p then 0x80 else 0)) # pending)
          = (keymap ! c ! r, pending,
             [KeypadGetEvent,
              Serial (KeyEventLine p (word_of_nat r) (word_of_nat c) (keymap ! c ! r))]))
   \<and> get_key beyond [150]
        = (CHR ''6'', [], [KeypadGetEvent, Serial (KeyEventLine True 2 1 (CHR ''6''))])
   \<and> keymap ! 1 ! 2 = CHR ''6'' \<and> keymap ! 2 ! 1 = CHR ''8''"
proof -
  have k: "get_key beyond [150]
        = (CHR ''6'', [], [KeypadGetEvent, Serial (KeyEventLine True 2 1 (CHR ''6''))])"
    by (simp add: get_key_def keymap_read_def keymap_def ROWS_def COLS_def
        signed_divide_int_def signed_modulo_int_def)
  have m: "keymap ! 1 ! 2 = CHR ''6'' \<and> keymap ! 2 ! 1 = CHR ''8''"
    by (simp add: keymap_def)
  show ?thesis
    using get_key_any_event [of beyond e pending] get_key_keys [of r c beyond p pending] k m
    by blast
qed

theorem get_key_decodes_witness:
  "(2::nat) < 4 \<and> (1::nat) < 4
   \<and> (word_of_nat (2 * 10 + 1 + 1) + (if True then 0x80 else 0) :: 8 word) = 150
   \<and> get_key (\<lambda>n. CHR 0x00) [150]
        = (keymap ! 1 ! 2, [],
           [KeypadGetEvent, Serial (KeyEventLine True 2 1 (keymap ! 1 ! 2))])
   \<and> get_key (\<lambda>n. CHR 0x00) [22]
        = (CHR ''6'', [], [KeypadGetEvent, Serial (KeyEventLine False 2 1 (CHR ''6''))])"
  using get_key_decodes [of "\<lambda>n. CHR 0x00" 22 "[]" 2 1 True]
  by (simp add: keymap_def keymap_read_def ROWS_def COLS_def
      signed_divide_int_def signed_modulo_int_def)

text \<open>
  Claim C7. Some raw events decode to a row or a column outside the 4 by 4 table, and
  \<open>get_key\<close> still reads \<open>keymap[col][row]\<close> with them: nothing clamps or rejects an index.
  The press event 169 decodes to row 4, column 0, and the read runs past the end of the first
  line of the table into the second: the function returns 4, the symbol \<open>keymap[1][0]\<close>.
  Event 5 decodes to column 4 and event 0, whose index becomes \<open>-1\<close>, to column 255: both
  reads leave the table, and the function returns the byte stored 0 and 1004 places behind
  it, whatever that byte is.
\<close>

theorem get_key_out_of_bounds_reachable:
  "(\<exists>e pressed row col.
      (ROWS \<le> unat col \<or> COLS \<le> unat row)
      \<and> get_key beyond [e]
          = (beyond 0, [], [KeypadGetEvent, Serial (KeyEventLine pressed row col (beyond 0))]))
   \<and> get_key beyond [169]
        = (CHR ''4'', [], [KeypadGetEvent, Serial (KeyEventLine True 4 0 (CHR ''4''))])
   \<and> keymap ! 1 ! 0 = CHR ''4''
   \<and> get_key beyond [5]
        = (beyond 0, [], [KeypadGetEvent, Serial (KeyEventLine False 0 4 (beyond 0))])
   \<and> get_key beyond [0]
        = (beyond 1004, [],
           [KeypadGetEvent, Serial (KeyEventLine False 0 255 (beyond 1004))])"
proof -
  have a: "get_key beyond [5]
        = (beyond 0, [], [KeypadGetEvent, Serial (KeyEventLine False 0 4 (beyond 0))])"
    by (simp add: get_key_def keymap_read_def keymap_def ROWS_def COLS_def
        signed_divide_int_def signed_modulo_int_def)
  have b: "get_key beyond [169]
        = (CHR ''4'', [], [KeypadGetEvent, Serial (KeyEventLine True 4 0 (CHR ''4''))])"
    by (simp add: get_key_def keymap_read_def keymap_def ROWS_def COLS_def
        signed_divide_int_def signed_modulo_int_def)
  have m: "keymap ! 1 ! 0 = CHR ''4''"
    by (simp add: keymap_def)
  have "(- 1 :: 8 word) = 255"
    by simp
  then have "unat (- 1 :: 8 word) = unat (255 :: 8 word)"
    by (simp only:)
  then have u: "unat (- 1 :: 8 word) = 255"
    by simp
  have c: "get_key beyond [0]
        = (beyond 1004, [],
           [KeypadGetEvent, Serial (KeyEventLine False 0 255 (beyond 1004))])"
    by (simp add: get_key_def keymap_read_def keymap_def ROWS_def COLS_def
        signed_divide_int_def signed_modulo_int_def u)
  have "(ROWS \<le> unat (4 :: 8 word) \<or> COLS \<le> unat (0 :: 8 word))
      \<and> get_key beyond [5]
          = (beyond 0, [], [KeypadGetEvent, Serial (KeyEventLine False 0 4 (beyond 0))])"
    using a by (simp add: ROWS_def)
  then have "\<exists>e pressed row col.
      (ROWS \<le> unat col \<or> COLS \<le> unat row)
      \<and> get_key beyond [e]
          = (beyond 0, [], [KeypadGetEvent, Serial (KeyEventLine pressed row col (beyond 0))])"
    by blast
  then show ?thesis using a b c m by (intro conjI)
qed

subsection \<open>onToggleState\<close>

lemma SinricPro_handle_state:
  "fst (SinricPro_handle rs s)
     = s\<lparr>globalToggleStates := globalToggleStates (fst (SinricPro_handle rs s))\<rparr>"
proof (induction rs arbitrary: s)
  case Nil
  then show ?case by simp
next
  case (Cons r rs)
  obtain d i b where r: "r = (d, i, b)" by (cases r) auto
  let ?s1 = "s\<lparr>globalToggleStates := (globalToggleStates s)(i \<mapsto> b)\<rparr>"
  have "fst (SinricPro_handle (r # rs) s) = fst (SinricPro_handle rs ?s1)"
    by (simp add: r onToggleState_def case_prod_beta)
  moreover have "fst (SinricPro_handle rs ?s1)
     = ?s1\<lparr>globalToggleStates := globalToggleStates (fst (SinricPro_handle rs ?s1))\<rparr>"
    by (rule Cons.IH)
  ultimately show ?case by simp
qed


lemma SinricPro_handle_fields:
  "deviceIsOn (fst (SinricPro_handle rs s)) = deviceIsOn s"
  "temperature (fst (SinricPro_handle rs s)) = temperature s"
  "humidity (fst (SinricPro_handle rs s)) = humidity s"
  "lastTemperature (fst (SinricPro_handle rs s)) = lastTemperature s"
  "lastHumidity (fst (SinricPro_handle rs s)) = lastHumidity s"
  "lastEvent (fst (SinricPro_handle rs s)) = lastEvent s"
  "LM393_previous_millis (fst (SinricPro_handle rs s)) = LM393_previous_millis s"
  by (subst SinricPro_handle_state, simp)+

text \<open>
  Claim C10. For every device id, instance and state, \<open>onToggleState\<close> returns true and stores
  the state under the instance in \<open>globalToggleStates\<close>; every other key of the map and every
  other global keeps its value, \<open>deviceIsOn\<close> among them. So no toggle request, and no sequence
  of requests delivered by the SDK, changes \<open>deviceIsOn\<close>, and \<open>handleTemperaturesensor\<close>
  makes the same calls after a request as before it; with the device off it does nothing.
\<close>

theorem onToggleState_frame:
  "fst (onToggleState deviceId instance st s) = True
   \<and> fst (snd (onToggleState deviceId instance st s))
       = s\<lparr>globalToggleStates := (globalToggleStates s)(instance \<mapsto> st)\<rparr>
   \<and> globalToggleStates (fst (snd (onToggleState deviceId instance st s))) instance = Some st
   \<and> (\<forall>other. other \<noteq> instance \<longrightarrow>
         globalToggleStates (fst (snd (onToggleState deviceId instance st s))) other
           = globalToggleStates s other)
   \<and> deviceIsOn (fst (snd (onToggleState deviceId instance st s))) = deviceIsOn s
   \<and> deviceIsOn (fst (SinricPro_handle requests s)) = deviceIsOn s
   \<and> snd (handleTemperaturesensor now t h ok (fst (snd (onToggleState deviceId instance st s))))
       = snd (handleTemperaturesensor now t h ok s)
   \<and> (\<not> deviceIsOn s \<longrightarrow>
         handleTemperaturesensor now t h ok (fst (snd (onToggleState deviceId instance st s)))
           = (fst (snd (onToggleState deviceId instance st s)), []))"
proof -
  have a: "deviceIsOn (fst (SinricPro_handle requests s)) = deviceIsOn s"
    by (rule SinricPro_handle_fields)
  have b: "snd (handleTemperaturesensor now t h ok
                 (s\<lparr>globalToggleStates := (globalToggleStates s)(instance \<mapsto> st)\<rparr>))
       = snd (handleTemperaturesensor now t h ok s)"
    by (simp add: handleTemperaturesensor_def Let_def)
  have c: "\<not> deviceIsOn s \<longrightarrow>
         handleTemperaturesensor now t h ok
           (s\<lparr>globalToggleStates := (globalToggleStates s)(instance \<mapsto> st)\<rparr>)
           = (s\<lparr>globalToggleStates := (globalToggleStates s)(instance \<mapsto> st)\<rparr>, [])"
    by (simp add: handleTemperaturesensor_def)
  show ?thesis using a b c by (simp add: onToggleState_def)
qed

theorem onToggleState_frame_witness:
  "fst (onToggleState ''653846228332c2648adaa2a7'' ''toggleInstance1'' True initial_state) = True
   \<and> globalToggleStates
        (fst (snd (onToggleState ''653846228332c2648adaa2a7'' ''toggleInstance1'' True
                     initial_state))) ''toggleInstance1'' = Some True
   \<and> globalToggleStates
        (fst (snd (onToggleState ''653846228332c2648adaa2a7'' ''toggleInstance1'' True
                     initial_state))) ''toggleInstance2'' = None
   \<and> ''toggleInstance2'' \<noteq> ''toggleInstance1''
   \<and> deviceIsOn
        (fst (snd (onToggleState ''653846228332c2648adaa2a7'' ''toggleInstance1'' True
                     initial_state))) = False
   \<and> handleTemperaturesensor 0 (Num 22) (Num 50) True
        (fst (snd (onToggleState ''653846228332c2648adaa2a7'' ''toggleInstance1'' True
                     initial_state)))
       = (fst (snd (onToggleState ''653846228332c2648adaa2a7'' ''toggleInstance1'' True
                     initial_state)), [])"
proof -
  note frame = onToggleState_frame [of "''653846228332c2648adaa2a7''" "''toggleInstance1''" True
      initial_state "[]" 0 "Num 22" "Num 50" True]
  have off: "deviceIsOn initial_state = False" by (simp add: initial_state_def)
  have none: "globalToggleStates initial_state ''toggleInstance2'' = None"
    by (simp add: initial_state_def)
  have ne: "''toggleInstance2'' \<noteq> ''toggleInstance1''" by simp
  let ?s = "fst (snd (onToggleState ''653846228332c2648adaa2a7'' ''toggleInstance1'' True
                     initial_state))"
  note rest1 = frame [THEN conjunct2]
  note rest2 = rest1 [THEN conjunct2]
  note rest3 = rest2 [THEN conjunct2]
  note rest4 = rest3 [THEN conjunct2]
  note rest7 = rest4 [THEN conjunct2, THEN conjunct2, THEN conjunct2]
  have c1:
    "fst (onToggleState ''653846228332c2648adaa2a7'' ''toggleInstance1'' True initial_state)
       = True"
    by (rule frame [THEN conjunct1])
  have c2: "globalToggleStates ?s ''toggleInstance1'' = Some True"
    by (rule rest2 [THEN conjunct1])
  have "globalToggleStates ?s ''toggleInstance2''
       = globalToggleStates initial_state ''toggleInstance2''"
    by (rule rest3 [THEN conjunct1, rule_format, OF ne])
  with none have c3: "globalToggleStates ?s ''toggleInstance2'' = None"
    by (simp only:)
  have "deviceIsOn ?s = deviceIsOn initial_state"
    by (rule rest4 [THEN conjunct1])
  with off have c4: "deviceIsOn ?s = False"
    by (simp only:)
  have noff: "\<not> deviceIsOn initial_state" using off by (simp only: simp_thms)
  have c5: "handleTemperaturesensor 0 (Num 22) (Num 50) True ?s = (?s, [])"
    by (rule rest7 [rule_format, OF noff])
  show ?thesis
    by (intro conjI c1 c2 c3 ne c4 c5)
qed

subsection \<open>loop\<close>























end
